theory Spec2Isabelle
  imports Main "HOL-Library.Sublist"
begin

unbundle bit_operations_syntax

section \<open>Exceptions\<close>

text \<open>
  The exception classes that the functions of \<^verbatim>\<open>common.py\<close> raise, catch or let through.
  A raised exception is a class together with its message.
\<close>

datatype exc =
    FileNotFoundError | NotADirectoryError | IsADirectoryError | FileExistsError | OSError
  | ValueError | JSONDecodeError | UnicodeDecodeError | BoxValueError | BinasciiError
  | TypeError | OverflowError | YAMLError | OtherException

datatype error = Raise exc string

fun exc_of :: "error \<Rightarrow> exc" where
  "exc_of (Raise c m) = c"

fun str_of :: "error \<Rightarrow> string" where
  "str_of (Raise c m) = m"

text \<open>
  \<open>is_subclass c d\<close>: an exception of class \<open>c\<close> is caught by \<^verbatim>\<open>except d\<close>.
  The file errors derive from \<^verbatim>\<open>OSError\<close>; the decoding errors of \<^verbatim>\<open>json\<close>, of the text
  layer, of \<^verbatim>\<open>box\<close> and of \<^verbatim>\<open>binascii\<close> derive from \<^verbatim>\<open>ValueError\<close>.
\<close>

fun is_subclass :: "exc \<Rightarrow> exc \<Rightarrow> bool" where
  "is_subclass FileNotFoundError OSError = True"
| "is_subclass NotADirectoryError OSError = True"
| "is_subclass IsADirectoryError OSError = True"
| "is_subclass FileExistsError OSError = True"
| "is_subclass JSONDecodeError ValueError = True"
| "is_subclass UnicodeDecodeError ValueError = True"
| "is_subclass BoxValueError ValueError = True"
| "is_subclass BinasciiError ValueError = True"
| "is_subclass c d = (c = d)"

definition isinstance :: "error \<Rightarrow> exc \<Rightarrow> bool" where
  "isinstance e d = is_subclass (exc_of e) d"

section \<open>Paths, the file system and the log\<close>

text \<open>
  A path is the list of its components below the working directory; the empty list is
  the working directory itself (\<^verbatim>\<open>Path('.')\<close>), which always exists. Files hold bytes.
  Permissions and the capacity of the disk are not part of the state.
\<close>

type_synonym path = "string list"

datatype level = DEBUG | INFO | WARNING | ERROR

record state =
  files :: "path \<rightharpoonup> string"
  dirs :: "path set"
  dir_bytes :: "path \<Rightarrow> nat"
  log :: "(level \<times> string) list"

type_synonym 'a result = "(error + 'a) \<times> state"

fun join_path :: "path \<Rightarrow> string" where
  "join_path [] = []"
| "join_path [c] = c"
| "join_path (c # cs) = c @ ''/'' @ join_path cs"

definition show_path :: "path \<Rightarrow> string" where
  "show_path p = (if p = [] then ''.'' else join_path p)"

definition logger_info :: "string \<Rightarrow> state \<Rightarrow> state" where
  "logger_info msg st = st\<lparr>log := log st @ [(INFO, msg)]\<rparr>"

text \<open>
  What a path names: a regular file, a directory, nothing (\<^verbatim>\<open>ENOENT\<close>), or a name below
  a regular file (\<^verbatim>\<open>ENOTDIR\<close>).
\<close>

datatype kind = KFile | KDir | KMissing | KNotDir

fun proper_prefixes :: "'a list \<Rightarrow> 'a list list" where
  "proper_prefixes [] = []"
| "proper_prefixes (x # xs) = [] # map ((#) x) (proper_prefixes xs)"

definition kind_of :: "state \<Rightarrow> path \<Rightarrow> kind" where
  "kind_of st p =
     (if list_ex (\<lambda>q. files st q \<noteq> None) (proper_prefixes p) then KNotDir
      else if files st p \<noteq> None then KFile
      else if p = [] \<or> p \<in> dirs st then KDir
      else KMissing)"

definition errno_msg :: "string \<Rightarrow> path \<Rightarrow> string" where
  "errno_msg what p = what @ '': '' @ [CHR 0x27] @ show_path p @ [CHR 0x27]"

text \<open>\<^verbatim>\<open>open(path)\<close> and \<^verbatim>\<open>open(path, "rb")\<close>: the bytes of an existing regular file.\<close>

definition open_read :: "state \<Rightarrow> path \<Rightarrow> error + string" where
  "open_read st p =
     (case kind_of st p of
        KFile \<Rightarrow> Inr (the (files st p))
      | KDir \<Rightarrow> Inl (Raise IsADirectoryError (errno_msg ''[Errno 21] Is a directory'' p))
      | KMissing \<Rightarrow>
          Inl (Raise FileNotFoundError (errno_msg ''[Errno 2] No such file or directory'' p))
      | KNotDir \<Rightarrow> Inl (Raise NotADirectoryError (errno_msg ''[Errno 20] Not a directory'' p)))"

section \<open>get_size\<close>

text \<open>
  \<^verbatim>\<open>os.path.getsize(path)\<close> is the \<^verbatim>\<open>st_size\<close> of the path: the number of bytes of a
  regular file, and what the platform reports for a directory.
\<close>

definition getsize :: "state \<Rightarrow> path \<Rightarrow> error + nat" where
  "getsize st p =
     (case kind_of st p of
        KFile \<Rightarrow> Inr (length (the (files st p)))
      | KDir \<Rightarrow> Inr (dir_bytes st p)
      | KMissing \<Rightarrow>
          Inl (Raise FileNotFoundError (errno_msg ''[Errno 2] No such file or directory'' p))
      | KNotDir \<Rightarrow> Inl (Raise NotADirectoryError (errno_msg ''[Errno 20] Not a directory'' p)))"

text \<open>
  \<^verbatim>\<open>n / 1024\<close> is Python's true division of two ints: the double nearest to the exact
  quotient, ties to the even significand. Dividing by a power of two only moves the
  exponent, so the quotient is \<open>n\<close> rounded to 53 significant bits over 1024;
  \<open>float_div_1024\<close> returns the numerator of that double, and \<^verbatim>\<open>OverflowError\<close> when the
  quotient is beyond the doubles.
\<close>

function bit_length :: "nat \<Rightarrow> nat" where
  "bit_length n = (if n = 0 then 0 else Suc (bit_length (n div 2)))"
  by pat_completeness auto
termination
  by (relation "measure id") auto

declare bit_length.simps [simp del]

definition round53 :: "nat \<Rightarrow> nat" where
  "round53 n =
     (if bit_length n \<le> 53 then n
      else let sh = bit_length n - 53; q = n div 2 ^ sh; r = n mod 2 ^ sh;
               half = 2 ^ (sh - 1)
           in (if half < r \<or> (r = half \<and> odd q) then q + 1 else q) * 2 ^ sh)"

definition float_div_1024 :: "nat \<Rightarrow> error + nat" where
  "float_div_1024 n =
     (if 2 ^ 1034 \<le> round53 n
      then Inl (Raise OverflowError ''integer division result too large for a float'')
      else Inr (round53 n))"

text \<open>
  \<^verbatim>\<open>round(x)\<close> of a double, with no digits given, is the nearest int, ties to the even
  one. The double is given by its numerator over 1024.
\<close>

definition py_round_1024 :: "nat \<Rightarrow> nat" where
  "py_round_1024 m =
     (let k = m div 1024; f = m mod 1024
      in if 512 < f \<or> (f = 512 \<and> odd k) then k + 1 else k)"

text \<open>The decimal digits of a natural number, as \<^verbatim>\<open>str\<close> and an f-string print it.\<close>

definition digit_char :: "nat \<Rightarrow> char" where
  "digit_char d = char_of (48 + d)"

function show_nat :: "nat \<Rightarrow> string" where
  "show_nat n = (if n < 10 then [digit_char n] else show_nat (n div 10) @ [digit_char (n mod 10)])"
  by pat_completeness auto
termination
  by (relation "measure id") auto

declare show_nat.simps [simp del]

definition get_size :: "path \<Rightarrow> state \<Rightarrow> string result" where
  "get_size p st =
     (case getsize st p of
        Inl e \<Rightarrow>
          (if isinstance e FileNotFoundError
           then (Inl (Raise FileNotFoundError (''File not found: '' @ show_path p)), st)
           else (Inl e, st))
      | Inr n \<Rightarrow>
          (case float_div_1024 n of
             Inl e \<Rightarrow> (Inl e, st)
           | Inr m \<Rightarrow> (Inr (''~ '' @ show_nat (py_round_1024 m) @ '' KB''), st)))"

section \<open>Python values\<close>

text \<open>
  The values that the parsers return and the serialisers take: \<^verbatim>\<open>None\<close>, bools, ints,
  floats, strings, bytes, lists, tuples, sets and dicts, and an object of another class
  that is truthy, hashable and not iterable (such as the date of a YAML timestamp),
  given by the name of its class and its \<^verbatim>\<open>repr\<close>. A dict is the list of its items in
  insertion order, a set the list of its elements in the order of iteration.

  Every finite double is a whole multiple of \<open>2\<close> to the power \<open>-1074\<close>: \<open>Finite k\<close> is
  that multiple of it, \<open>NegZero\<close> is \<^verbatim>\<open>-0.0\<close>.
\<close>

datatype pyfloat = Finite int | NegZero | PosInf | NegInf | NaN

datatype pyval =
    PyNone | PyBool bool | PyInt int | PyFloat pyfloat | PyStr string | PyBytes string
  | PyList "pyval list" | PyTuple "pyval list" | PySet "pyval list"
  | PyDict "(pyval \<times> pyval) list" | PyObject string string

text \<open>\<^verbatim>\<open>not content\<close> is \<open>\<not> truthy content\<close>.\<close>

fun truthy :: "pyval \<Rightarrow> bool" where
  "truthy PyNone = False"
| "truthy (PyBool b) = b"
| "truthy (PyInt i) = (i \<noteq> 0)"
| "truthy (PyFloat f) = (f \<noteq> Finite 0 \<and> f \<noteq> NegZero)"
| "truthy (PyStr s) = (s \<noteq> [])"
| "truthy (PyBytes s) = (s \<noteq> [])"
| "truthy (PyList xs) = (xs \<noteq> [])"
| "truthy (PyTuple xs) = (xs \<noteq> [])"
| "truthy (PySet xs) = (xs \<noteq> [])"
| "truthy (PyDict kvs) = (kvs \<noteq> [])"
| "truthy (PyObject c r) = True"

text \<open>\<^verbatim>\<open>type(v).__name__\<close>, as the messages of the interpreter print it.\<close>

fun type_name :: "pyval \<Rightarrow> string" where
  "type_name PyNone = ''NoneType''"
| "type_name (PyBool b) = ''bool''"
| "type_name (PyInt i) = ''int''"
| "type_name (PyFloat f) = ''float''"
| "type_name (PyStr s) = ''str''"
| "type_name (PyBytes s) = ''bytes''"
| "type_name (PyList xs) = ''list''"
| "type_name (PyTuple xs) = ''tuple''"
| "type_name (PySet xs) = ''set''"
| "type_name (PyDict kvs) = ''dict''"
| "type_name (PyObject c r) = c"

text \<open>
  Keys of a dict are compared with \<^verbatim>\<open>==\<close>, for which \<^verbatim>\<open>True\<close> is \<^verbatim>\<open>1\<close>, \<^verbatim>\<open>False\<close> is \<^verbatim>\<open>0\<close> and
  a float with a whole value is that int; a \<^verbatim>\<open>nan\<close> is equal to no float, itself
  included. Lists, sets and dicts cannot be keys: \<open>first_unhashable\<close> is the class that
  \<^verbatim>\<open>hash\<close> names in its \<^verbatim>\<open>TypeError\<close>.
\<close>

fun norm_key :: "pyval \<Rightarrow> pyval" where
  "norm_key (PyBool b) = PyInt (if b then 1 else 0)"
| "norm_key (PyFloat (Finite k)) =
     (if k mod 2 ^ 1074 = 0 then PyInt (k div 2 ^ 1074) else PyFloat (Finite k))"
| "norm_key (PyFloat NegZero) = PyInt 0"
| "norm_key (PyTuple xs) = PyTuple (map norm_key xs)"
| "norm_key v = v"

fun nan_free :: "pyval \<Rightarrow> bool" where
  "nan_free (PyFloat f) = (f \<noteq> NaN)"
| "nan_free (PyTuple xs) = list_all nan_free xs"
| "nan_free v = True"

definition key_eq :: "pyval \<Rightarrow> pyval \<Rightarrow> bool" where
  "key_eq a b = (nan_free a \<and> norm_key a = norm_key b)"

fun first_unhashable :: "pyval \<Rightarrow> string option" where
  "first_unhashable (PyList xs) = Some ''list''"
| "first_unhashable (PySet xs) = Some ''set''"
| "first_unhashable (PyDict kvs) = Some ''dict''"
| "first_unhashable (PyTuple xs) =
     (case filter (\<lambda>r. r \<noteq> None) (map first_unhashable xs) of [] \<Rightarrow> None | r # _ \<Rightarrow> r)"
| "first_unhashable v = None"

definition hashable :: "pyval \<Rightarrow> bool" where
  "hashable v = (first_unhashable v = None)"

text \<open>\<^verbatim>\<open>d[k] = v\<close>: the value of an equal key is replaced in place, a new key goes last.\<close>

fun dict_setitem :: "(pyval \<times> pyval) list \<Rightarrow> pyval \<Rightarrow> pyval \<Rightarrow> (pyval \<times> pyval) list" where
  "dict_setitem [] k v = [(k, v)]"
| "dict_setitem ((k', v') # kvs) k v =
     (if key_eq k' k then (k', v) # kvs else (k', v') # dict_setitem kvs k v)"

text \<open>\<^verbatim>\<open>d[k]\<close> of a dict given by its items, for a hashable \<open>k\<close>; \<open>None\<close> is \<^verbatim>\<open>KeyError\<close>.\<close>

fun dict_getitem :: "(pyval \<times> pyval) list \<Rightarrow> pyval \<Rightarrow> pyval option" where
  "dict_getitem [] k = None"
| "dict_getitem ((k', v') # kvs) k = (if key_eq k' k then Some v' else dict_getitem kvs k)"

text \<open>The items of a dict: the keys are hashable, and no key is equal to a later one.\<close>

fun dict_ok :: "(pyval \<times> pyval) list \<Rightarrow> bool" where
  "dict_ok [] = True"
| "dict_ok ((k, v) # kvs) =
     (hashable k \<and> list_all (\<lambda>kv. \<not> key_eq k (fst kv)) kvs \<and> dict_ok kvs)"

section \<open>ConfigBox\<close>

text \<open>
  A box is a dict with attribute access, given by its items. A dict stored in a box
  becomes a box and a list a \<^verbatim>\<open>BoxList\<close>, which are equal to the dict and the list they
  were made from; the items keep them as the values they are.

  \<^verbatim>\<open>ConfigBox(content)\<close> is the constructor of \<^verbatim>\<open>Box\<close>: a string is refused, the items of a
  mapping are stored one by one, any other iterable is read as a sequence of pairs of
  a key and a value, and anything else is refused. \<open>iter_values\<close> is what iterating over
  a value yields, \<open>None\<close> for a value that is not iterable; \<open>unpack_pair\<close> is
  \<^verbatim>\<open>k, v = x\<close>, with the messages of CPython 3.11.
\<close>

datatype box = Box "(pyval \<times> pyval) list"

fun box_items :: "box \<Rightarrow> (pyval \<times> pyval) list" where
  "box_items (Box kvs) = kvs"

fun iter_values :: "pyval \<Rightarrow> pyval list option" where
  "iter_values (PyStr s) = Some (map (\<lambda>c. PyStr [c]) s)"
| "iter_values (PyBytes bs) = Some (map (\<lambda>c. PyInt (int (of_char c))) bs)"
| "iter_values (PyList xs) = Some xs"
| "iter_values (PyTuple xs) = Some xs"
| "iter_values (PySet xs) = Some xs"
| "iter_values (PyDict kvs) = Some (map fst kvs)"
| "iter_values v = None"

definition unpack_pair :: "pyval \<Rightarrow> error + (pyval \<times> pyval)" where
  "unpack_pair x =
     (case iter_values x of
        None \<Rightarrow>
          Inl (Raise TypeError (''cannot unpack non-iterable '' @ type_name x @ '' object''))
      | Some vs \<Rightarrow>
          (case vs of
             [] \<Rightarrow> Inl (Raise ValueError ''not enough values to unpack (expected 2, got 0)'')
           | [a] \<Rightarrow> Inl (Raise ValueError ''not enough values to unpack (expected 2, got 1)'')
           | [k, v] \<Rightarrow> Inr (k, v)
           | _ \<Rightarrow> Inl (Raise ValueError ''too many values to unpack (expected 2)'')))"

fun box_from_pairs :: "(pyval \<times> pyval) list \<Rightarrow> pyval list \<Rightarrow> error + (pyval \<times> pyval) list" where
  "box_from_pairs d [] = Inr d"
| "box_from_pairs d (x # xs) =
     (case unpack_pair x of
        Inl e \<Rightarrow> Inl e
      | Inr (k, v) \<Rightarrow>
          (case first_unhashable k of
             None \<Rightarrow> box_from_pairs (dict_setitem d k v) xs
           | Some c \<Rightarrow>
               Inl (Raise TypeError (''unhashable type: '' @ [CHR 0x27] @ c @ [CHR 0x27]))))"

fun box_from_items :: "(pyval \<times> pyval) list \<Rightarrow> (pyval \<times> pyval) list \<Rightarrow> (pyval \<times> pyval) list" where
  "box_from_items d [] = d"
| "box_from_items d ((k, v) # kvs) = box_from_items (dict_setitem d k v) kvs"

fun ConfigBox :: "pyval \<Rightarrow> error + box" where
  "ConfigBox (PyStr s) = Inl (Raise BoxValueError ''Cannot extrapolate Box from string'')"
| "ConfigBox (PyDict kvs) = Inr (Box (box_from_items [] kvs))"
| "ConfigBox v =
     (case iter_values v of
        None \<Rightarrow> Inl (Raise BoxValueError ''First argument must be mapping or iterable'')
      | Some xs \<Rightarrow> map_sum id Box (box_from_pairs [] xs))"

text \<open>\<^verbatim>\<open>box[k]\<close>; \<open>None\<close> is \<^verbatim>\<open>BoxKeyError\<close>, a \<^verbatim>\<open>KeyError\<close>.\<close>

fun box_getitem :: "box \<Rightarrow> pyval \<Rightarrow> pyval option" where
  "box_getitem (Box kvs) k = dict_getitem kvs k"

text \<open>
  \<^verbatim>\<open>box.name\<close>. Python first looks the name up as an ordinary attribute, which finds the
  members of the class (\<^verbatim>\<open>keys\<close>, \<^verbatim>\<open>items\<close>, \<^verbatim>\<open>to_dict\<close> and so on) and the \<^verbatim>\<open>_box_config\<close> of
  the instance: \<open>class_attr\<close> tells which names these are, and the result is then that
  member and no item. For every other name Python calls \<^verbatim>\<open>ConfigBox.__getattr__\<close>, which
  asks \<^verbatim>\<open>Box.__getattr__\<close> for the name and, when that raises \<^verbatim>\<open>AttributeError\<close>, for the
  name in lower case. \<^verbatim>\<open>Box.__getattr__\<close> returns the item whose key is the name; when
  there is none, the item whose key the conversion box spells as the name, which is the
  parameter \<open>conversion\<close>. \<open>None\<close> is the \<^verbatim>\<open>AttributeError\<close> of a name that nothing answers.
\<close>

datatype attr = Member string | Item pyval

definition lower_char :: "char \<Rightarrow> char" where
  "lower_char c =
     (let n = (of_char c :: nat)
      in if (65 \<le> n \<and> n \<le> 90) \<or> (192 \<le> n \<and> n \<le> 222 \<and> n \<noteq> 215) then char_of (n + 32) else c)"

definition str_lower :: "string \<Rightarrow> string" where
  "str_lower s = map lower_char s"

definition Box_getattr ::
  "((pyval \<times> pyval) list \<Rightarrow> string \<Rightarrow> pyval option) \<Rightarrow> box \<Rightarrow> string \<Rightarrow> pyval option" where
  "Box_getattr conversion b item =
     (case box_getitem b (PyStr item) of
        Some v \<Rightarrow> Some v
      | None \<Rightarrow> conversion (box_items b) item)"

definition ConfigBox_getattr ::
  "((pyval \<times> pyval) list \<Rightarrow> string \<Rightarrow> pyval option) \<Rightarrow> box \<Rightarrow> string \<Rightarrow> pyval option" where
  "ConfigBox_getattr conversion b item =
     (case Box_getattr conversion b item of
        Some v \<Rightarrow> Some v
      | None \<Rightarrow> Box_getattr conversion b (str_lower item))"

definition box_getattr ::
  "(string \<Rightarrow> bool) \<Rightarrow> ((pyval \<times> pyval) list \<Rightarrow> string \<Rightarrow> pyval option)
     \<Rightarrow> box \<Rightarrow> string \<Rightarrow> attr option" where
  "box_getattr class_attr conversion b name =
     (if class_attr name then Some (Member name)
      else map_option Item (ConfigBox_getattr conversion b name))"

text \<open>
  For the examples: names that are attributes of every \<^verbatim>\<open>ConfigBox\<close> (the methods of
  \<^verbatim>\<open>dict\<close>, methods of \<^verbatim>\<open>Box\<close> and of \<^verbatim>\<open>ConfigBox\<close>, the configuration of the instance), and
  a conversion that finds nothing. The examples ask for these names and for keys only.
\<close>

definition sample_class_attr :: "string \<Rightarrow> bool" where
  "sample_class_attr name =
     (name \<in> set [''clear'', ''copy'', ''fromkeys'', ''get'', ''items'', ''keys'', ''pop'',
        ''popitem'', ''setdefault'', ''update'', ''values'', ''to_dict'', ''to_json'',
        ''to_yaml'', ''merge_update'', ''getboolean'', ''getint'', ''getfloat'',
        ''_box_config''])"

definition no_conversion :: "(pyval \<times> pyval) list \<Rightarrow> string \<Rightarrow> pyval option" where
  "no_conversion kvs name = None"

section \<open>read_yaml\<close>

text \<open>
  \<^verbatim>\<open>yaml.safe_load\<close> is a parameter: a function from the bytes of the file to the parsed
  document or the exception of the parser. The three \<^verbatim>\<open>except\<close> clauses are
  \<open>read_yaml_except\<close>; they see every exception raised in the \<^verbatim>\<open>try\<close> block, the
  \<^verbatim>\<open>ValueError\<close> of the empty document included.
\<close>

definition read_yaml_except :: "path \<Rightarrow> error \<Rightarrow> error" where
  "read_yaml_except p e =
     (if isinstance e YAMLError
      then Raise ValueError (''Error parsing YAML file '' @ show_path p @ '': '' @ str_of e)
      else if isinstance e FileNotFoundError
      then Raise FileNotFoundError (''YAML file not found: '' @ show_path p)
      else e)"

definition read_yaml :: "(string \<Rightarrow> error + pyval) \<Rightarrow> path \<Rightarrow> state \<Rightarrow> box result" where
  "read_yaml safe_load p st =
     (case open_read st p of
        Inl e \<Rightarrow> (Inl (read_yaml_except p e), st)
      | Inr yaml_file \<Rightarrow>
          (case safe_load yaml_file of
             Inl e \<Rightarrow> (Inl (read_yaml_except p e), st)
           | Inr content \<Rightarrow>
               if \<not> truthy content
               then (Inl (read_yaml_except p
                       (Raise ValueError (''YAML file at '' @ show_path p @ '' is empty''))), st)
               else
                 let st' = logger_info (''YAML file: '' @ show_path p @ '' loaded successfully'') st
                 in (case ConfigBox content of
                       Inl e \<Rightarrow> (Inl (read_yaml_except p e), st')
                     | Inr box \<Rightarrow> (Inr box, st'))))"

text \<open>
  What \<^verbatim>\<open>yaml.safe_load\<close> returns on the documents of the examples below; the table
  stands for the parser there, and takes any other text as not parsed.
\<close>

definition sample_safe_load :: "string \<Rightarrow> error + pyval" where
  "sample_safe_load s =
     (if s = [] \<or> s = ''null'' \<or> s = ''~'' then Inr PyNone
      else if s = ''0'' then Inr (PyInt 0)
      else if s = ''false'' then Inr (PyBool False)
      else if s = ''\"\"'' then Inr (PyStr [])
      else if s = ''[]'' then Inr (PyList [])
      else if s = ''{}'' then Inr (PyDict [])
      else if s = ''hello'' then Inr (PyStr ''hello'')
      else if s = ''epochs: 5'' then Inr (PyDict [(PyStr ''epochs'', PyInt 5)])
      else if s = ''keys: 1'' then Inr (PyDict [(PyStr ''keys'', PyInt 1)])
      else Inl (Raise YAMLError ''not one of the sample documents''))"

text \<open>A file system with one regular file \<open>p\<close> of bytes \<open>bs\<close> in the working directory.\<close>

definition one_file :: "string \<Rightarrow> string \<Rightarrow> state" where
  "one_file name bs =
     \<lparr>files = [[name] \<mapsto> bs], dirs = {}, dir_bytes = (\<lambda>p. 4096), log = []\<rparr>"

definition no_files :: state where
  "no_files = \<lparr>files = Map.empty, dirs = {}, dir_bytes = (\<lambda>p. 4096), log = []\<rparr>"

section \<open>create_directories\<close>

text \<open>
  \<^verbatim>\<open>os.makedirs(path, exist_ok=True)\<close>: when the parent is missing it is made first, by
  the same function; then \<^verbatim>\<open>mkdir\<close> makes the directory, and its \<^verbatim>\<open>OSError\<close> is dropped
  when the path is a directory already. The components of a path are names: \<^verbatim>\<open>.\<close> and
  \<^verbatim>\<open>..\<close> do not occur among them.
\<close>

definition path_exists :: "state \<Rightarrow> path \<Rightarrow> bool" where
  "path_exists st p = (kind_of st p = KFile \<or> kind_of st p = KDir)"

definition isdir :: "state \<Rightarrow> path \<Rightarrow> bool" where
  "isdir st p = (kind_of st p = KDir)"

definition mkdir :: "path \<Rightarrow> state \<Rightarrow> error + state" where
  "mkdir p st =
     (case kind_of st p of
        KFile \<Rightarrow> Inl (Raise FileExistsError (errno_msg ''[Errno 17] File exists'' p))
      | KDir \<Rightarrow> Inl (Raise FileExistsError (errno_msg ''[Errno 17] File exists'' p))
      | KNotDir \<Rightarrow> Inl (Raise NotADirectoryError (errno_msg ''[Errno 20] Not a directory'' p))
      | KMissing \<Rightarrow>
          if kind_of st (butlast p) = KDir then Inr (st\<lparr>dirs := insert p (dirs st)\<rparr>)
          else Inl (Raise FileNotFoundError (errno_msg ''[Errno 2] No such file or directory'' p)))"

definition mkdir_exist_ok :: "path \<Rightarrow> state \<Rightarrow> unit result" where
  "mkdir_exist_ok p st =
     (case mkdir p st of
        Inr st' \<Rightarrow> (Inr (), st')
      | Inl e \<Rightarrow> if isinstance e OSError \<and> isdir st p then (Inr (), st) else (Inl e, st))"

function makedirs :: "path \<Rightarrow> state \<Rightarrow> unit result" where
  "makedirs p st =
     (if butlast p \<noteq> [] \<and> \<not> path_exists st (butlast p)
      then (case makedirs (butlast p) st of
              (Inl e, st1) \<Rightarrow>
                if isinstance e FileExistsError then mkdir_exist_ok p st1 else (Inl e, st1)
            | (Inr u, st1) \<Rightarrow> mkdir_exist_ok p st1)
      else mkdir_exist_ok p st)"
  by pat_completeness auto
termination
  by (relation "measure (\<lambda>(p, st). length p)") (auto simp: butlast_conv_take)

declare makedirs.simps [simp del]

fun create_directories :: "path list \<Rightarrow> bool \<Rightarrow> state \<Rightarrow> unit result" where
  "create_directories [] verbose st = (Inr (), st)"
| "create_directories (p # ps) verbose st =
     (case makedirs p st of
        (Inl e, st1) \<Rightarrow>
          if isinstance e OSError
          then (Inl (Raise OSError (''Error creating directory '' @ show_path p @ '': '' @ str_of e)), st1)
          else (Inl e, st1)
      | (Inr u, st1) \<Rightarrow>
          create_directories ps verbose
            (if verbose then logger_info (''Created directory at: '' @ show_path p) st1 else st1))"


text \<open>
  A path is made when it is a directory and its parent exists: what a successful
  \<open>makedirs\<close> leaves, and all that a later \<open>makedirs\<close> of the path looks at.
\<close>

definition made :: "state \<Rightarrow> path \<Rightarrow> bool" where
  "made st p = (kind_of st p = KDir \<and> (butlast p = [] \<or> path_exists st (butlast p)))"

section \<open>base64\<close>

text \<open>
  \<^verbatim>\<open>base64.b64encode\<close> is \<^verbatim>\<open>binascii.b2a_base64\<close> without the newline, and
  \<^verbatim>\<open>base64.b64decode\<close> is \<^verbatim>\<open>binascii.a2b_base64\<close> in its lenient mode; both are loops
  over the bytes with a few bits of state, modelled with the names of the C code.
  A byte is a \<open>char\<close>; the integers of the loops are naturals, with the bit operations
  of the C code and the truncation to their width written out.
\<close>

definition b64_alphabet :: string where
  "b64_alphabet = ''ABCDEFGHIJKLMNOPQRSTUVWXYZabcdefghijklmnopqrstuvwxyz0123456789+/''"

definition table_b2a_base64 :: "nat \<Rightarrow> char" where
  "table_b2a_base64 n = b64_alphabet ! n"

definition table_a2b_base64 :: "char \<Rightarrow> nat" where
  "table_a2b_base64 c =
     (let n = of_char c in
      if 65 \<le> n \<and> n \<le> 90 then n - 65
      else if 97 \<le> n \<and> n \<le> 122 then n - 71
      else if 48 \<le> n \<and> n \<le> 57 then n + 4
      else if c = CHR ''+'' then 62
      else if c = CHR ''/'' then 63
      else 255)"

text \<open>
  The encoder shifts each byte into \<open>leftchar\<close> (an \<^verbatim>\<open>unsigned int\<close> of 32 bits) and emits
  a character for every 6 bits that are ready (\<open>b2a_drain\<close>, the inner \<^verbatim>\<open>while\<close>); the bits
  left at the end are padded with \<^verbatim>\<open>=\<close>.
\<close>

function b2a_drain :: "nat \<Rightarrow> nat \<Rightarrow> string \<times> nat" where
  "b2a_drain leftchar leftbits =
     (if 6 \<le> leftbits
      then (let this_ch = drop_bit (leftbits - 6) leftchar AND 0x3f;
                (out, bits) = b2a_drain leftchar (leftbits - 6)
            in (table_b2a_base64 this_ch # out, bits))
      else ([], leftbits))"
  by pat_completeness auto
termination
  by (relation "measure snd") auto

declare b2a_drain.simps [simp del]

fun b2a_loop :: "nat \<Rightarrow> nat \<Rightarrow> string \<Rightarrow> string" where
  "b2a_loop leftchar leftbits [] =
     (if leftbits = 2 then [table_b2a_base64 (push_bit 4 (leftchar AND 3)), CHR ''='', CHR ''='']
      else if leftbits = 4 then [table_b2a_base64 (push_bit 2 (leftchar AND 0xf)), CHR ''='']
      else [])"
| "b2a_loop leftchar leftbits (b # bin_data) =
     (let leftchar' = take_bit 32 (push_bit 8 leftchar OR of_char b);
          (out, bits) = b2a_drain leftchar' (leftbits + 8)
      in out @ b2a_loop leftchar' bits bin_data)"

definition b64encode :: "string \<Rightarrow> string" where
  "b64encode s = b2a_loop 0 0 s"

text \<open>
  The decoder skips every character outside the alphabet, collects four sextets into
  three bytes, and stops at the padding that completes a group. What is left over in
  an incomplete group is an error. A string with a character beyond ASCII is refused
  before the loop.
\<close>

definition byte :: "nat \<Rightarrow> char" where
  "byte n = char_of (take_bit 8 n)"

fun a2b_loop :: "nat \<Rightarrow> nat \<Rightarrow> nat \<Rightarrow> string \<Rightarrow> string \<Rightarrow> error + string" where
  "a2b_loop quad_pos leftchar pads bin_data [] =
     (if quad_pos = 0 then Inr bin_data
      else if quad_pos = 1
      then Inl (Raise BinasciiError
             (''Invalid base64-encoded string: number of data characters (''
              @ show_nat (length bin_data div 3 * 4 + 1)
              @ '') cannot be 1 more than a multiple of 4''))
      else Inl (Raise BinasciiError ''Incorrect padding''))"
| "a2b_loop quad_pos leftchar pads bin_data (c # ascii_data) =
     (if c = CHR ''=''
      then (if 2 \<le> quad_pos \<and> 4 \<le> quad_pos + (pads + 1) then Inr bin_data
            else a2b_loop quad_pos leftchar (if 2 \<le> quad_pos then pads + 1 else pads)
                   bin_data ascii_data)
      else
        let this_ch = table_a2b_base64 c in
        if 64 \<le> this_ch then a2b_loop quad_pos leftchar pads bin_data ascii_data
        else if quad_pos = 0 then a2b_loop 1 this_ch 0 bin_data ascii_data
        else if quad_pos = 1
        then a2b_loop 2 (this_ch AND 0x0f) 0
               (bin_data @ [byte (push_bit 2 leftchar OR drop_bit 4 this_ch)]) ascii_data
        else if quad_pos = 2
        then a2b_loop 3 (this_ch AND 0x03) 0
               (bin_data @ [byte (push_bit 4 leftchar OR drop_bit 2 this_ch)]) ascii_data
        else a2b_loop 0 0 0 (bin_data @ [byte (push_bit 6 leftchar OR this_ch)]) ascii_data)"

definition b64decode :: "string \<Rightarrow> error + string" where
  "b64decode s =
     (if list_ex (\<lambda>c. 128 \<le> (of_char c :: nat)) s
      then Inl (Raise ValueError ''string argument should contain only ASCII characters'')
      else a2b_loop 0 0 0 [] s)"

section \<open>decodeImage and encodeImageIntoBase64\<close>

text \<open>
  \<^verbatim>\<open>open(path, "w")\<close> and \<^verbatim>\<open>open(path, "wb")\<close> create the file in an existing directory, or
  truncate it; \<^verbatim>\<open>f.write\<close> appends to the open file.
\<close>

definition open_write :: "state \<Rightarrow> path \<Rightarrow> error + state" where
  "open_write st p =
     (case kind_of st p of
        KFile \<Rightarrow> Inr (st\<lparr>files := (files st)(p \<mapsto> [])\<rparr>)
      | KDir \<Rightarrow> Inl (Raise IsADirectoryError (errno_msg ''[Errno 21] Is a directory'' p))
      | KNotDir \<Rightarrow> Inl (Raise NotADirectoryError (errno_msg ''[Errno 20] Not a directory'' p))
      | KMissing \<Rightarrow>
          if kind_of st (butlast p) = KDir then Inr (st\<lparr>files := (files st)(p \<mapsto> [])\<rparr>)
          else Inl (Raise FileNotFoundError (errno_msg ''[Errno 2] No such file or directory'' p)))"

definition file_write :: "path \<Rightarrow> string \<Rightarrow> state \<Rightarrow> state" where
  "file_write p bs st =
     st\<lparr>files := (files st)(p \<mapsto> (case files st p of None \<Rightarrow> bs | Some old \<Rightarrow> old @ bs))\<rparr>"

definition decodeImage :: "string \<Rightarrow> path \<Rightarrow> state \<Rightarrow> unit result" where
  "decodeImage imgstring fileName st =
     (case b64decode imgstring of
        Inl e \<Rightarrow> (Inl (Raise ValueError (''Error decoding image: '' @ str_of e)), st)
      | Inr imgdata \<Rightarrow>
          (case open_write st fileName of
             Inl e \<Rightarrow> (Inl (Raise ValueError (''Error decoding image: '' @ str_of e)), st)
           | Inr st1 \<Rightarrow>
               (Inr (),
                logger_info (''Image decoded and saved at: '' @ show_path fileName)
                  (file_write fileName imgdata st1))))"

definition encodeImageIntoBase64 :: "path \<Rightarrow> state \<Rightarrow> string result" where
  "encodeImageIntoBase64 croppedImagePath st =
     (case open_read st croppedImagePath of
        Inl e \<Rightarrow>
          if isinstance e FileNotFoundError
          then (Inl (Raise FileNotFoundError
                  (''Image file not found: '' @ show_path croppedImagePath)), st)
          else (Inl (Raise ValueError (''Error encoding image: '' @ str_of e)), st)
      | Inr bs \<Rightarrow> (Inr (b64encode bs), st))"

text \<open>
  For the proofs: the byte shifted into \<open>leftchar\<close>, and the four sextets of a group of
  three bytes.
\<close>

definition shift_in :: "nat \<Rightarrow> char \<Rightarrow> nat" where
  "shift_in L b = take_bit 32 (push_bit 8 L OR of_char b)"

definition sx0 :: "char \<Rightarrow> nat" where
  "sx0 a = drop_bit 2 (of_char a)"

definition sx1 :: "char \<Rightarrow> char \<Rightarrow> nat" where
  "sx1 a b = push_bit 4 (take_bit 2 (of_char a)) OR drop_bit 4 (of_char b)"

definition sx2 :: "char \<Rightarrow> char \<Rightarrow> nat" where
  "sx2 b c = push_bit 2 (take_bit 4 (of_char b)) OR drop_bit 6 (of_char c)"

definition sx3 :: "char \<Rightarrow> nat" where
  "sx3 c = take_bit 6 (of_char c)"

section \<open>save_json\<close>




definition sample_json_load :: "string \<Rightarrow> error + pyval" where
  "sample_json_load s =
     (if s = ''{}'' then Inr (PyDict [])
      else if s = ''{'' @ [CHR 0x0A] @ ''    \"loss\": 1'' @ [CHR 0x0A] @ ''}''
      then Inr (PyDict [(PyStr ''loss'', PyInt 1)])
      else if s = ''not json''
      then Inl (Raise JSONDecodeError ''Expecting value: line 1 column 1 (char 0)'')
      else Inl (Raise OtherException ''not one of the sample documents''))"

section \<open>load_json, save_bin and load_bin\<close>

text \<open>
  \<open>load_json\<close> takes \<^verbatim>\<open>json.load\<close> as a parameter, from the bytes of the file to the parsed
  value or the exception of the decoder. The \<^verbatim>\<open>except\<close> clause sees every exception of
  the \<^verbatim>\<open>try\<close> block, those of \<^verbatim>\<open>ConfigBox\<close> included.
\<close>

definition load_json_except :: "path \<Rightarrow> error \<Rightarrow> error" where
  "load_json_except p e =
     (if isinstance e JSONDecodeError \<or> isinstance e FileNotFoundError
      then Raise ValueError (''Error loading JSON file at '' @ show_path p @ '': '' @ str_of e)
      else e)"

definition load_json :: "(string \<Rightarrow> error + pyval) \<Rightarrow> path \<Rightarrow> state \<Rightarrow> box result" where
  "load_json loader p st =
     (case open_read st p of
        Inl e \<Rightarrow> (Inl (load_json_except p e), st)
      | Inr f \<Rightarrow>
          (case loader f of
             Inl e \<Rightarrow> (Inl (load_json_except p e), st)
           | Inr content \<Rightarrow>
               let st' = logger_info (''JSON file loaded successfully from: '' @ show_path p) st
               in (case ConfigBox content of
                     Inl e \<Rightarrow> (Inl (load_json_except p e), st')
                   | Inr box \<Rightarrow> (Inr box, st'))))"

text \<open>
  \<^verbatim>\<open>@ensure_annotations\<close> checks every annotated argument with \<^verbatim>\<open>isinstance\<close> before it
  calls the function, and the returned value after the call when the function has a
  return annotation. The types of this model make the checks against \<^verbatim>\<open>Path\<close>, \<^verbatim>\<open>str\<close>,
  \<^verbatim>\<open>list\<close>, \<^verbatim>\<open>dict\<close> and \<^verbatim>\<open>ConfigBox\<close> pass. \<^verbatim>\<open>isinstance(value, typing.Any)\<close> raises
  \<^verbatim>\<open>TypeError\<close> for every value: \<open>ensure_Any\<close> is the check against the annotation \<^verbatim>\<open>Any\<close>
  of the argument \<^verbatim>\<open>data\<close> of \<open>save_bin\<close> and of the result of \<open>load_bin\<close>.
\<close>

definition ensure_Any :: "'a \<Rightarrow> error + unit" where
  "ensure_Any v = Inl (Raise TypeError ''typing.Any cannot be used with isinstance()'')"


definition load_bin_body :: "(string \<Rightarrow> error + pyval) \<Rightarrow> path \<Rightarrow> state \<Rightarrow> pyval result" where
  "load_bin_body loads p st =
     (case open_read st p of
        Inl e \<Rightarrow> (Inl (Raise ValueError
                   (''Error loading binary file at '' @ show_path p @ '': '' @ str_of e)), st)
      | Inr bs \<Rightarrow>
          (case loads bs of
             Inl e \<Rightarrow> (Inl (Raise ValueError
                        (''Error loading binary file at '' @ show_path p @ '': '' @ str_of e)), st)
           | Inr data \<Rightarrow>
               (Inr data, logger_info (''Binary file loaded from: '' @ show_path p) st)))"


definition load_bin :: "(string \<Rightarrow> error + pyval) \<Rightarrow> path \<Rightarrow> state \<Rightarrow> pyval result" where
  "load_bin loads p st =
     (case load_bin_body loads p st of
        (Inl e, st') \<Rightarrow> (Inl e, st')
      | (Inr data, st') \<Rightarrow>
          (case ensure_Any data of
             Inl e \<Rightarrow> (Inl e, st')
           | Inr _ \<Rightarrow> (Inr data, st')))"

text \<open>
  For the examples: the pickle of \<^verbatim>\<open>None\<close>, which is what \<^verbatim>\<open>joblib.dump\<close> writes for it and
  what \<^verbatim>\<open>joblib.load\<close> reads back; the tables take anything else as not serialised.
\<close>

definition pickle_None :: string where
  "pickle_None = [CHR 0x80, CHR 0x04, CHR ''N'', CHR ''.'']"


definition sample_joblib_loads :: "string \<Rightarrow> error + pyval" where
  "sample_joblib_loads bs =
     (if bs = pickle_None then Inr PyNone
      else Inl (Raise OtherException ''not one of the sample files''))"


section \<open>Properties\<close>

lemma bit_length_le:
  "n < 2 ^ k \<Longrightarrow> bit_length n \<le> k"
proof (induction n arbitrary: k rule: bit_length.induct)
  case (1 n)
  show ?case
  proof (cases "n = 0")
    case True
    then show ?thesis by (simp add: bit_length.simps)
  next
    case False
    with "1.prems" obtain j where k: "k = Suc j" by (cases k) auto
    with "1.prems" have "n div 2 < 2 ^ j" by auto
    with "1.IH" [OF False] have "bit_length (n div 2) \<le> j" .
    with False k show ?thesis by (simp add: bit_length.simps)
  qed
qed

lemma float_div_1024_small:
  "n < 2 ^ 53 \<Longrightarrow> float_div_1024 n = Inr n"
proof -
  assume a: "n < 2 ^ 53"
  then have "bit_length n \<le> 53" by (rule bit_length_le)
  then have r: "round53 n = n" by (simp add: round53_def)
  have "n < (2::nat) ^ 1034" using a
    by (rule less_trans) simp
  with r show ?thesis by (simp add: float_div_1024_def)
qed

lemma get_size_file:
  assumes "kind_of st p = KFile" and "files st p = Some bs" and "length bs < 2 ^ 53"
  shows "get_size p st = (Inr (''~ '' @ show_nat (py_round_1024 (length bs)) @ '' KB''), st)"
  using assms by (simp add: get_size_def getsize_def float_div_1024_small)

text \<open>
  C9: \<open>get_size\<close> on a file of exactly 2048 bytes returns \<^verbatim>\<open>"~ 2 KB"\<close>, and on a file of
  exactly 1 byte returns \<^verbatim>\<open>"~ 0 KB"\<close>. A file is a path that names a regular file of the
  file system, whatever its bytes are.
\<close>

theorem get_size_2048_and_1:
  "(kind_of st p = KFile \<and> files st p = Some bs \<and> length bs = 2048
      \<longrightarrow> get_size p st = (Inr ''~ 2 KB'', st))
   \<and> (kind_of st p = KFile \<and> files st p = Some bs \<and> length bs = 1
      \<longrightarrow> get_size p st = (Inr ''~ 0 KB'', st))"
proof -
  have two: "show_nat (py_round_1024 2048) = ''2''"
    by code_simp
  have zero: "show_nat (py_round_1024 1) = ''0''"
    by code_simp
  show ?thesis
    using two zero by (auto simp: get_size_file)
qed

theorem get_size_2048_and_1_witness:
  "get_size [''model.bin''] (one_file ''model.bin'' (replicate 2048 CHR ''x''))
     = (Inr ''~ 2 KB'', one_file ''model.bin'' (replicate 2048 CHR ''x''))
   \<and> get_size [''one.bin''] (one_file ''one.bin'' ''x'')
     = (Inr ''~ 0 KB'', one_file ''one.bin'' ''x'')"
  using get_size_2048_and_1 [of "one_file ''model.bin'' (replicate 2048 CHR ''x'')"
      "[''model.bin'']" "replicate 2048 CHR ''x''"]
    get_size_2048_and_1 [of "one_file ''one.bin'' ''x''" "[''one.bin'']" "''x''"]
  by (simp add: one_file_def kind_of_def)

subsection \<open>read_yaml\<close>

lemma read_yaml_not_truthy:
  assumes "kind_of st p = KFile" and "files st p = Some txt"
    and "safe_load txt = Inr v" and "\<not> truthy v"
  shows "read_yaml safe_load p st
           = (Inl (Raise ValueError (''YAML file at '' @ show_path p @ '' is empty'')), st)"
  using assms
  by (simp add: read_yaml_def open_read_def read_yaml_except_def isinstance_def)

text \<open>
  C4: on an existing YAML file that is empty or whose document is \<^verbatim>\<open>null\<close>, that is a file
  on which \<^verbatim>\<open>yaml.safe_load\<close> returns \<^verbatim>\<open>None\<close>, \<open>read_yaml\<close> raises the \<^verbatim>\<open>ValueError\<close> of the
  empty content, whatever the parser does elsewhere; it returns no mapping and leaves
  the state as it was.
\<close>

theorem read_yaml_empty_or_null:
  assumes "kind_of st p = KFile" and "files st p = Some txt" and "safe_load txt = Inr PyNone"
  shows "read_yaml safe_load p st
           = (Inl (Raise ValueError (''YAML file at '' @ show_path p @ '' is empty'')), st)
         \<and> isinstance (Raise ValueError (''YAML file at '' @ show_path p @ '' is empty'')) ValueError"
  using assms by (simp add: read_yaml_not_truthy isinstance_def)

theorem read_yaml_empty_or_null_witness:
  "read_yaml sample_safe_load [''config.yaml''] (one_file ''config.yaml'' [])
     = (Inl (Raise ValueError ''YAML file at config.yaml is empty''), one_file ''config.yaml'' [])
   \<and> read_yaml sample_safe_load [''config.yaml''] (one_file ''config.yaml'' ''null'')
     = (Inl (Raise ValueError ''YAML file at config.yaml is empty''),
        one_file ''config.yaml'' ''null'')"
  using read_yaml_empty_or_null [of "one_file ''config.yaml'' []" "[''config.yaml'']" "[]"
      sample_safe_load]
    read_yaml_empty_or_null [of "one_file ''config.yaml'' ''null''" "[''config.yaml'']" "''null''"
      sample_safe_load]
  by (simp add: one_file_def kind_of_def sample_safe_load_def show_path_def)

text \<open>
  C10: on an existing file whose YAML document parses to a falsy value (the scalar \<^verbatim>\<open>0\<close>,
  \<^verbatim>\<open>false\<close>, the empty string, an empty sequence or an empty mapping), \<open>read_yaml\<close> raises
  the \<^verbatim>\<open>ValueError\<close> with the "is empty" message and does not return that value.
\<close>

theorem read_yaml_falsy_document:
  assumes "kind_of st p = KFile" and "files st p = Some txt" and "safe_load txt = Inr v"
    and "v \<in> set [PyInt 0, PyBool False, PyStr [], PyList [], PyDict []]"
  shows "read_yaml safe_load p st
           = (Inl (Raise ValueError (''YAML file at '' @ show_path p @ '' is empty'')), st)"
proof -
  from assms(4) have "\<not> truthy v" by auto
  with assms(1-3) show ?thesis by (rule read_yaml_not_truthy)
qed

theorem read_yaml_falsy_document_witness:
  "list_all (\<lambda>txt. read_yaml sample_safe_load [''params.yaml''] (one_file ''params.yaml'' txt)
       = (Inl (Raise ValueError ''YAML file at params.yaml is empty''),
          one_file ''params.yaml'' txt))
     [''0'', ''false'', ''\"\"'', ''[]'', ''{}'']"
  using read_yaml_falsy_document [of "one_file ''params.yaml'' ''0''" "[''params.yaml'']" "''0''"
      sample_safe_load "PyInt 0"]
    read_yaml_falsy_document [of "one_file ''params.yaml'' ''false''" "[''params.yaml'']"
      "''false''" sample_safe_load "PyBool False"]
    read_yaml_falsy_document [of "one_file ''params.yaml'' ''\"\"''" "[''params.yaml'']"
      "''\"\"''" sample_safe_load "PyStr []"]
    read_yaml_falsy_document [of "one_file ''params.yaml'' ''[]''" "[''params.yaml'']"
      "''[]''" sample_safe_load "PyList []"]
    read_yaml_falsy_document [of "one_file ''params.yaml'' ''{}''" "[''params.yaml'']"
      "''{}''" sample_safe_load "PyDict []"]
  by (simp add: one_file_def kind_of_def sample_safe_load_def show_path_def)

lemma dict_setitem_new:
  "list_all (\<lambda>kv. \<not> key_eq (fst kv) k) d \<Longrightarrow> dict_setitem d k v = d @ [(k, v)]"
  by (induction d) auto

lemma dict_ok_append:
  "dict_ok (d @ (k, v) # kvs) \<Longrightarrow>
     list_all (\<lambda>kv. \<not> key_eq (fst kv) k) d \<and> dict_ok ((d @ [(k, v)]) @ kvs)"
  by (induction d) auto

lemma box_from_items_distinct:
  "dict_ok (d @ kvs) \<Longrightarrow> box_from_items d kvs = d @ kvs"
proof (induction kvs arbitrary: d)
  case Nil
  then show ?case by simp
next
  case (Cons kv kvs)
  obtain k v where kv: "kv = (k, v)" by (cases kv)
  from Cons.prems kv have new: "list_all (\<lambda>kv. \<not> key_eq (fst kv) k) d"
    and ok: "dict_ok ((d @ [(k, v)]) @ kvs)"
    using dict_ok_append [of d k v kvs] by simp_all
  from ok have "box_from_items (d @ [(k, v)]) kvs = (d @ [(k, v)]) @ kvs" by (rule Cons.IH)
  with new kv show ?case by (simp add: dict_setitem_new)
qed

lemma box_from_items_ok:
  "dict_ok kvs \<Longrightarrow> box_from_items [] kvs = kvs"
  using box_from_items_distinct [of "[]" kvs] by simp

lemma ConfigBox_dict:
  "dict_ok kvs \<Longrightarrow> ConfigBox (PyDict kvs) = Inr (Box kvs)"
  by (simp add: box_from_items_ok)

lemma box_getattr_key:
  "dict_getitem kvs (PyStr name) = Some v \<Longrightarrow>
     box_getattr class_attr conversion (Box kvs) name
       = Some (if class_attr name then Member name else Item v)"
  by (simp add: box_getattr_def ConfigBox_getattr_def Box_getattr_def)

text \<open>
  C3, as the code has it: on an existing file whose YAML document parses to a non-empty
  mapping, \<open>read_yaml\<close> succeeds, logs one message and returns the \<^verbatim>\<open>ConfigBox\<close> of the
  items of the parsed document. Item access on that box agrees with the document for
  every key. Attribute access agrees with the document for every string key that is not
  the name of an attribute of the class; for a key that is one, such as \<^verbatim>\<open>keys\<close>, it
  yields the member of the class and not the item. A document that parses to a truthy
  value that is no mapping, such as the scalar \<^verbatim>\<open>hello\<close>, is valid and not empty, and
  \<open>read_yaml\<close> raises on it: see the counterexample.
\<close>

theorem read_yaml_mapping:
  assumes "kind_of st p = KFile" and "files st p = Some txt"
    and "safe_load txt = Inr (PyDict kvs)" and "kvs \<noteq> []" and "dict_ok kvs"
  shows "read_yaml safe_load p st
           = (Inr (Box kvs),
              logger_info (''YAML file: '' @ show_path p @ '' loaded successfully'') st)
     \<and> box_getitem (Box kvs) k = dict_getitem kvs k
     \<and> (dict_getitem kvs (PyStr name) = Some v \<longrightarrow>
          box_getattr class_attr conversion (Box kvs) name
            = Some (if class_attr name then Member name else Item v))"
  using assms
  by (simp add: read_yaml_def open_read_def box_from_items_ok box_getattr_key)

theorem read_yaml_mapping_witness:
  "read_yaml sample_safe_load [''params.yaml''] (one_file ''params.yaml'' ''epochs: 5'')
     = (Inr (Box [(PyStr ''epochs'', PyInt 5)]),
        logger_info ''YAML file: params.yaml loaded successfully''
          (one_file ''params.yaml'' ''epochs: 5''))
   \<and> box_getitem (Box [(PyStr ''epochs'', PyInt 5)]) (PyStr ''epochs'') = Some (PyInt 5)
   \<and> box_getattr sample_class_attr no_conversion (Box [(PyStr ''epochs'', PyInt 5)]) ''epochs''
       = Some (Item (PyInt 5))
   \<and> fst (read_yaml sample_safe_load [''params.yaml''] (one_file ''params.yaml'' ''keys: 1''))
       = Inr (Box [(PyStr ''keys'', PyInt 1)])
   \<and> box_getitem (Box [(PyStr ''keys'', PyInt 1)]) (PyStr ''keys'') = Some (PyInt 1)
   \<and> box_getattr sample_class_attr no_conversion (Box [(PyStr ''keys'', PyInt 1)]) ''keys''
       = Some (Member ''keys'')"
  using read_yaml_mapping [of "one_file ''params.yaml'' ''epochs: 5''" "[''params.yaml'']"
      "''epochs: 5''" sample_safe_load "[(PyStr ''epochs'', PyInt 5)]" "PyStr ''epochs''"
      "''epochs''" "PyInt 5" sample_class_attr no_conversion]
    read_yaml_mapping [of "one_file ''params.yaml'' ''keys: 1''" "[''params.yaml'']"
      "''keys: 1''" sample_safe_load "[(PyStr ''keys'', PyInt 1)]" "PyStr ''keys''"
      "''keys''" "PyInt 1" sample_class_attr no_conversion]
  by (simp add: one_file_def kind_of_def sample_safe_load_def show_path_def hashable_def
      key_eq_def sample_class_attr_def)

theorem read_yaml_scalar_counterexample:
  "sample_safe_load ''hello'' = Inr (PyStr ''hello'') \<and> truthy (PyStr ''hello'')
   \<and> fst (read_yaml sample_safe_load [''params.yaml''] (one_file ''params.yaml'' ''hello''))
       = Inl (Raise BoxValueError ''Cannot extrapolate Box from string'')"
  by (simp add: read_yaml_def open_read_def one_file_def kind_of_def sample_safe_load_def
      read_yaml_except_def isinstance_def)

subsection \<open>create_directories\<close>

lemma kind_of_cong:
  "files st' = files st \<Longrightarrow> dirs st' = dirs st \<Longrightarrow> kind_of st' p = kind_of st p"
  by (simp add: kind_of_def)

lemma kind_of_KDir_mono:
  "files st' = files st \<Longrightarrow> dirs st \<subseteq> dirs st' \<Longrightarrow> kind_of st p = KDir \<Longrightarrow> kind_of st' p = KDir"
  by (auto simp: kind_of_def split: if_splits)

lemma kind_of_KFile_mono:
  "files st' = files st \<Longrightarrow> kind_of st p = KFile \<Longrightarrow> kind_of st' p = KFile"
  by (auto simp: kind_of_def split: if_splits)

lemma made_mono:
  "files st' = files st \<Longrightarrow> dirs st \<subseteq> dirs st' \<Longrightarrow> made st p \<Longrightarrow> made st' p"
  by (auto simp: made_def path_exists_def dest: kind_of_KDir_mono kind_of_KFile_mono)

lemma mkdir_exist_ok_frame:
  "mkdir_exist_ok p st = (r, st') \<Longrightarrow>
     files st' = files st \<and> dirs st \<subseteq> dirs st' \<and> log st' = log st \<and> dir_bytes st' = dir_bytes st"
  by (auto simp: mkdir_exist_ok_def mkdir_def split: kind.splits if_splits)

lemma makedirs_frame:
  "makedirs p st = (r, st') \<Longrightarrow>
     files st' = files st \<and> dirs st \<subseteq> dirs st' \<and> log st' = log st \<and> dir_bytes st' = dir_bytes st"
proof (induction p st arbitrary: r st' rule: makedirs.induct)
  case (1 p st)
  show ?case
  proof (cases "butlast p \<noteq> [] \<and> \<not> path_exists st (butlast p)")
    case False
    with "1.prems" have "mkdir_exist_ok p st = (r, st')" by (simp add: makedirs.simps)
    then show ?thesis by (rule mkdir_exist_ok_frame)
  next
    case True
    obtain r1 st1 where m: "makedirs (butlast p) st = (r1, st1)" by (cases "makedirs (butlast p) st")
    from "1.IH" [OF True m] have f1:
      "files st1 = files st \<and> dirs st \<subseteq> dirs st1 \<and> log st1 = log st \<and> dir_bytes st1 = dir_bytes st" .
    from "1.prems" True m have
      "(r, st') = (r1, st1) \<or> mkdir_exist_ok p st1 = (r, st')"
      by (subst (asm) makedirs.simps) (auto split: sum.splits if_splits)
    then show ?thesis
    proof
      assume "(r, st') = (r1, st1)" with f1 show ?thesis by simp
    next
      assume "mkdir_exist_ok p st1 = (r, st')"
      from mkdir_exist_ok_frame [OF this] f1 show ?thesis by auto
    qed
  qed
qed

lemma mkdir_exist_ok_made:
  assumes "mkdir_exist_ok p st = (Inr u, st')" and "butlast p = [] \<or> path_exists st (butlast p)"
  shows "made st' p"
proof -
  from mkdir_exist_ok_frame [OF assms(1)] have fr: "files st' = files st" "dirs st \<subseteq> dirs st'"
    by auto
  have par: "butlast p = [] \<or> path_exists st' (butlast p)"
    using assms(2) fr
    by (auto simp: path_exists_def dest: kind_of_KDir_mono kind_of_KFile_mono)
  have "kind_of st' p = KDir"
    using assms(1)
    by (auto simp: mkdir_exist_ok_def mkdir_def isdir_def kind_of_def
        split: kind.splits if_splits)
  with par show ?thesis by (simp add: made_def)
qed

lemma makedirs_FileExistsError:
  "makedirs p st = (Inl e, st') \<Longrightarrow> isinstance e FileExistsError \<Longrightarrow> kind_of st p = KFile"
proof (induction p st arbitrary: e st' rule: makedirs.induct)
  case (1 p st)
  have last_step: "kind_of s p = KFile"
    if "mkdir_exist_ok p s = (Inl e, st')" for s
    using that "1.prems"(2)
    by (auto simp: mkdir_exist_ok_def mkdir_def isdir_def isinstance_def
        split: kind.splits if_splits)
  show ?case
  proof (cases "butlast p \<noteq> [] \<and> \<not> path_exists st (butlast p)")
    case False
    with "1.prems" have "mkdir_exist_ok p st = (Inl e, st')" by (simp add: makedirs.simps)
    then show ?thesis by (rule last_step)
  next
    case True
    obtain r1 st1 where m: "makedirs (butlast p) st = (r1, st1)" by (cases "makedirs (butlast p) st")
    from makedirs_frame [OF m] have fr: "files st1 = files st" by simp
    from "1.prems"(1) True m have
      "(r1 = Inl e \<and> \<not> isinstance e FileExistsError) \<or> mkdir_exist_ok p st1 = (Inl e, st')"
      by (subst (asm) makedirs.simps) (auto split: sum.splits if_splits)
    with "1.prems"(2) have "mkdir_exist_ok p st1 = (Inl e, st')" by auto
    then have "kind_of st1 p = KFile" by (rule last_step)
    with fr show ?thesis by (auto simp: kind_of_def split: if_splits)
  qed
qed

lemma makedirs_made:
  "makedirs p st = (Inr u, st') \<Longrightarrow> made st' p"
proof (induction p st arbitrary: u st' rule: makedirs.induct)
  case (1 p st)
  show ?case
  proof (cases "butlast p \<noteq> [] \<and> \<not> path_exists st (butlast p)")
    case False
    with "1.prems" have "mkdir_exist_ok p st = (Inr u, st')" by (simp add: makedirs.simps)
    with False show ?thesis by (auto intro: mkdir_exist_ok_made)
  next
    case True
    obtain r1 st1 where m: "makedirs (butlast p) st = (r1, st1)" by (cases "makedirs (butlast p) st")
    from "1.prems" True m have ok: "mkdir_exist_ok p st1 = (Inr u, st')"
      by (subst (asm) makedirs.simps) (auto split: sum.splits if_splits)
    from mkdir_exist_ok_frame [OF ok] have fr: "files st' = files st1" "dirs st1 \<subseteq> dirs st'"
      by auto
    have "kind_of st' p = KDir"
      using ok
      by (auto simp: mkdir_exist_ok_def mkdir_def isdir_def kind_of_def
          split: kind.splits if_splits)
    moreover have "path_exists st' (butlast p)"
    proof -
      from ok have "kind_of st1 (butlast p) = KDir \<or> kind_of st1 p = KDir"
        by (auto simp: mkdir_exist_ok_def mkdir_def isdir_def split: kind.splits if_splits)
      then show ?thesis
      proof
        assume "kind_of st1 (butlast p) = KDir"
        with fr have "kind_of st' (butlast p) = KDir" by (auto dest: kind_of_KDir_mono)
        then show ?thesis by (simp add: path_exists_def)
      next
        assume d: "kind_of st1 p = KDir"
        show ?thesis
        proof (cases r1)
          case (Inr u1)
          with m "1.IH" [OF True] have "made st1 (butlast p)" by simp
          then have "kind_of st1 (butlast p) = KDir" by (simp add: made_def)
          with fr have "kind_of st' (butlast p) = KDir" by (auto dest: kind_of_KDir_mono)
          then show ?thesis by (simp add: path_exists_def)
        next
          case (Inl e)
          with ok m True have "isinstance e FileExistsError"
            using "1.prems"
            by (subst (asm) makedirs.simps) (auto split: sum.splits if_splits)
          with m Inl have "kind_of st (butlast p) = KFile"
            by (auto dest: makedirs_FileExistsError)
          with True show ?thesis by (simp add: path_exists_def)
        qed
      qed
    qed
    ultimately show ?thesis by (simp add: made_def)
  qed
qed

lemma makedirs_noop:
  "made st p \<Longrightarrow> makedirs p st = (Inr (), st)"
  by (subst makedirs.simps)
    (auto simp: made_def mkdir_exist_ok_def mkdir_def isdir_def isinstance_def)

lemma create_directories_made:
  "create_directories ps verbose st = (Inr u, st') \<Longrightarrow>
     files st' = files st \<and> dirs st \<subseteq> dirs st' \<and> (\<forall>p \<in> set ps. made st' p)"
proof (induction ps arbitrary: st)
  case Nil
  then show ?case by simp
next
  case (Cons p ps)
  obtain r1 st1 where m: "makedirs p st = (r1, st1)" by (cases "makedirs p st")
  from Cons.prems m obtain u1 where r1: "r1 = Inr u1"
    by (cases r1) (auto split: if_splits)
  define st2 where
    "st2 = (if verbose then logger_info (''Created directory at: '' @ show_path p) st1 else st1)"
  from Cons.prems m r1 have rest: "create_directories ps verbose st2 = (Inr u, st')"
    by (simp add: st2_def)
  from makedirs_frame [OF m] have f1: "files st1 = files st" "dirs st \<subseteq> dirs st1" by auto
  have f2: "files st2 = files st1" "dirs st2 = dirs st1" by (auto simp: st2_def logger_info_def)
  from Cons.IH [OF rest] have ih:
    "files st' = files st2" "dirs st2 \<subseteq> dirs st'" "\<forall>p \<in> set ps. made st' p" by auto
  from m r1 have "made st1 p" by (auto dest: makedirs_made)
  moreover have "files st' = files st1" "dirs st1 \<subseteq> dirs st'" using ih(1,2) f2 by auto
  ultimately have "made st' p" by (auto intro: made_mono)
  with ih f1 f2 show ?case by auto
qed

lemma create_directories_noop:
  "\<forall>p \<in> set ps. made st p \<Longrightarrow>
     \<exists>st'. create_directories ps verbose st = (Inr (), st')
       \<and> files st' = files st \<and> dirs st' = dirs st"
proof (induction ps arbitrary: st)
  case Nil
  then show ?case by simp
next
  case (Cons p ps)
  define st2 where
    "st2 = (if verbose then logger_info (''Created directory at: '' @ show_path p) st else st)"
  have f2: "files st2 = files st" "dirs st2 = dirs st" by (auto simp: st2_def logger_info_def)
  then have "made st2 q" if "made st q" for q
    using that by (auto intro: made_mono)
  with Cons.prems have "\<forall>q \<in> set ps. made st2 q" by simp
  from Cons.IH [OF this] obtain st' where st':
    "create_directories ps verbose st2 = (Inr (), st')" "files st' = files st2" "dirs st' = dirs st2"
    by blast
  from Cons.prems have "makedirs p st = (Inr (), st)" by (simp add: makedirs_noop)
  then have "create_directories (p # ps) verbose st = create_directories ps verbose st2"
    by (simp add: st2_def)
  with st' f2 show ?case by simp
qed

text \<open>
  C8: \<open>create_directories\<close> is idempotent. When a first call with a list of paths has
  succeeded, a second call with the same list raises no error and leaves the same
  directories (and the same files) as the first call left.
\<close>

theorem create_directories_idempotent:
  assumes "create_directories ps verbose st = (Inr (), st1)"
  shows "\<exists>st2. create_directories ps verbose st1 = (Inr (), st2)
           \<and> dirs st2 = dirs st1 \<and> files st2 = files st1"
proof -
  from create_directories_made [OF assms] have "\<forall>p \<in> set ps. made st1 p" by simp
  from create_directories_noop [OF this, of verbose] show ?thesis by blast
qed

theorem create_directories_idempotent_witness:
  "\<exists>st2. create_directories [[''artifacts'', ''data''], [''artifacts'']] True
            (snd (create_directories [[''artifacts'', ''data''], [''artifacts'']] True no_files))
          = (Inr (), st2)
        \<and> dirs st2 = {[''artifacts'', ''data''], [''artifacts'']}"
proof -
  let ?ps = "[[''artifacts'', ''data''], [''artifacts'']]"
  have "fst (create_directories ?ps True no_files) = Inr ()"
    by code_simp
  then have first: "create_directories ?ps True no_files
      = (Inr (), snd (create_directories ?ps True no_files))"
    by (simp add: prod_eq_iff)
  have d: "dirs (snd (create_directories ?ps True no_files)) = {[''artifacts'', ''data''], [''artifacts'']}"
    by code_simp
  from create_directories_idempotent [OF first] d show ?thesis by auto
qed

subsection \<open>base64\<close>

lemma table_roundtrip_all:
  "\<forall>n \<in> set [0..<64]. table_a2b_base64 (table_b2a_base64 n) = n
      \<and> table_b2a_base64 n \<noteq> CHR ''='' \<and> (of_char (table_b2a_base64 n) :: nat) < 128"
  by code_simp

lemma table_roundtrip:
  assumes "n < 64"
  shows "table_a2b_base64 (table_b2a_base64 n) = n"
    and "table_b2a_base64 n \<noteq> CHR ''=''"
    and "(of_char (table_b2a_base64 n) :: nat) < 128"
  using assms table_roundtrip_all by auto

lemma of_char_take_bit: "take_bit 8 (of_char c :: nat) = of_char c"
  by (simp add: take_bit_eq_mod)

lemma bit_of_char: "bit (of_char c :: nat) n \<Longrightarrow> n < 8"
  using of_char_take_bit [of c] by (metis bit_take_bit_iff)

lemma mask63: "(63::nat) = mask 6" and mask15: "(15::nat) = mask 4" and mask3: "(3::nat) = mask 2"
  by (simp_all add: mask_eq_exp_minus_1)

lemma sextet_less: "take_bit 6 (n::nat) < 64"
  using take_bit_nat_less_exp [of 6 n] by simp

lemma sx_eq_take_bit:
  "sx0 a = take_bit 6 (sx0 a)" "sx1 a b = take_bit 6 (sx1 a b)"
  "sx2 b c = take_bit 6 (sx2 b c)" "sx3 c = take_bit 6 (sx3 c)"
  by (auto simp: sx0_def sx1_def sx2_def sx3_def bit_eq_iff bit_simps dest: bit_of_char)

lemma sx_less: "sx0 a < 64" "sx1 a b < 64" "sx2 b c < 64" "sx3 c < 64"
  using sx_eq_take_bit(1) [of a] sx_eq_take_bit(2) [of a b] sx_eq_take_bit(3) [of b c]
    sx_eq_take_bit(4) [of c] sextet_less
  by metis+

lemma enc_s0: "drop_bit 2 (shift_in L a) AND 0x3f = sx0 a"
  unfolding mask63 take_bit_eq_mask [symmetric] shift_in_def sx0_def
  by (auto simp: bit_eq_iff bit_simps dest: bit_of_char)

lemma enc_s1: "drop_bit 4 (shift_in (shift_in L a) b) AND 0x3f = sx1 a b"
  unfolding mask63 take_bit_eq_mask [symmetric] shift_in_def sx1_def
  by (auto simp: bit_eq_iff bit_simps dest: bit_of_char)

lemma enc_s2: "drop_bit 6 (shift_in (shift_in L b) c) AND 0x3f = sx2 b c"
  unfolding mask63 take_bit_eq_mask [symmetric] shift_in_def sx2_def
  by (auto simp: bit_eq_iff bit_simps dest: bit_of_char)

lemma enc_s3: "shift_in L c AND 0x3f = sx3 c"
  unfolding mask63 take_bit_eq_mask [symmetric] shift_in_def sx3_def
  by (auto simp: bit_eq_iff bit_simps dest: bit_of_char)

lemma enc_tail1: "push_bit 4 (shift_in L a AND 3) = sx1 a (CHR 0x00)"
  unfolding mask3 take_bit_eq_mask [symmetric] shift_in_def sx1_def
  by (auto simp: bit_eq_iff bit_simps dest: bit_of_char)

lemma enc_tail2: "push_bit 2 (shift_in L b AND 0xf) = sx2 b (CHR 0x00)"
  unfolding mask15 take_bit_eq_mask [symmetric] shift_in_def sx2_def
  by (auto simp: bit_eq_iff bit_simps dest: bit_of_char)

lemma byte_eqI: "take_bit 8 n = of_char c \<Longrightarrow> byte n = c"
  by (simp add: byte_def)

lemma bit_Suc_Suc_minus_2:
  "bit (x::nat) (Suc (Suc (n - 2))) = (if 2 \<le> n then bit x n else bit x 2)"
proof (cases "2 \<le> n")
  case True
  then have "Suc (Suc (n - 2)) = n" by arith
  with True show ?thesis by simp
next
  case False
  then have "Suc (Suc (n - 2)) = 2" by arith
  with False show ?thesis by (simp add: numeral_2_eq_2)
qed

lemma dec_b1: "byte (push_bit 2 (sx0 a) OR drop_bit 4 (sx1 a b)) = a"
  by (rule byte_eqI)
    (auto simp: sx0_def sx1_def bit_eq_iff bit_simps bit_Suc_Suc_minus_2 dest: bit_of_char)

lemma dec_b2: "byte (push_bit 4 (sx1 a b AND 0x0f) OR drop_bit 2 (sx2 b c)) = b"
  unfolding mask15 take_bit_eq_mask [symmetric]
  by (rule byte_eqI) (auto simp: sx1_def sx2_def bit_eq_iff bit_simps dest: bit_of_char)

lemma dec_b3: "byte (push_bit 6 (sx2 b c AND 0x03) OR sx3 c) = c"
  unfolding mask3 take_bit_eq_mask [symmetric]
  by (rule byte_eqI) (auto simp: sx2_def sx3_def bit_eq_iff bit_simps dest: bit_of_char)

lemma dec_b2': "byte (push_bit 4 (sx1 a b) AND 240 OR drop_bit 2 (sx2 b c)) = b"
  using dec_b2 [of a b c] by simp

lemma dec_b3': "byte (push_bit 6 (sx2 b c) AND 192 OR sx3 c) = c"
  using dec_b3 [of b c] by simp

lemma b2a_drain_8: "b2a_drain L 8 = ([table_b2a_base64 (drop_bit 2 L AND 0x3f)], 2)"
  by (simp add: b2a_drain.simps)

lemma b2a_drain_10: "b2a_drain L 10 = ([table_b2a_base64 (drop_bit 4 L AND 0x3f)], 4)"
  by (simp add: b2a_drain.simps)

lemma b2a_drain_12:
  "b2a_drain L 12 = ([table_b2a_base64 (drop_bit 6 L AND 0x3f), table_b2a_base64 (L AND 0x3f)], 0)"
  by (simp add: b2a_drain.simps)

lemma b2a_loop_Cons:
  "b2a_loop L k (b # bs) =
     fst (b2a_drain (shift_in L b) (k + 8))
       @ b2a_loop (shift_in L b) (snd (b2a_drain (shift_in L b) (k + 8))) bs"
  by (simp add: shift_in_def Let_def case_prod_beta)

lemma enc1:
  "b2a_loop L 0 [a] =
     [table_b2a_base64 (sx0 a), table_b2a_base64 (sx1 a (CHR 0x00)), CHR ''='', CHR ''='']"
  by (simp only: b2a_loop_Cons b2a_drain_8 add_0 fst_conv snd_conv b2a_loop.simps(1)
      enc_s0 enc_tail1 append_Cons append_Nil if_True refl)

lemma b2a_loop_Nil_4:
  "b2a_loop L 4 [] = [table_b2a_base64 (push_bit 2 (L AND 0xf)), CHR ''='']"
  by simp

lemma enc2:
  "b2a_loop L 0 [a, b] =
     [table_b2a_base64 (sx0 a), table_b2a_base64 (sx1 a b),
      table_b2a_base64 (sx2 b (CHR 0x00)), CHR ''='']"
proof -
  have "b2a_loop L 0 [a, b] = table_b2a_base64 (sx0 a) # b2a_loop (shift_in L a) 2 [b]"
    by (simp only: b2a_loop_Cons b2a_drain_8 add_0 fst_conv snd_conv enc_s0 append_Cons append_Nil)
  also have "b2a_loop (shift_in L a) 2 [b] =
      table_b2a_base64 (sx1 a b) # b2a_loop (shift_in (shift_in L a) b) 4 []"
    using b2a_loop_Cons [of "shift_in L a" 2 b "[]"]
    by (simp add: b2a_drain_10 enc_s1)
  also have "b2a_loop (shift_in (shift_in L a) b) 4 [] =
      [table_b2a_base64 (sx2 b (CHR 0x00)), CHR ''='']"
    by (simp only: b2a_loop_Nil_4 enc_tail2)
  finally show ?thesis .
qed

lemma enc3:
  "b2a_loop L 0 (a # b # c # rest) =
     table_b2a_base64 (sx0 a) # table_b2a_base64 (sx1 a b) # table_b2a_base64 (sx2 b c)
       # table_b2a_base64 (sx3 c) # b2a_loop (shift_in (shift_in (shift_in L a) b) c) 0 rest"
proof -
  have "b2a_loop L 0 (a # b # c # rest) =
      table_b2a_base64 (sx0 a) # b2a_loop (shift_in L a) 2 (b # c # rest)"
    by (simp only: b2a_loop_Cons b2a_drain_8 add_0 fst_conv snd_conv enc_s0 append_Cons append_Nil)
  also have "b2a_loop (shift_in L a) 2 (b # c # rest) =
      table_b2a_base64 (sx1 a b) # b2a_loop (shift_in (shift_in L a) b) 4 (c # rest)"
    using b2a_loop_Cons [of "shift_in L a" 2 b "c # rest"]
    by (simp add: b2a_drain_10 enc_s1)
  also have "b2a_loop (shift_in (shift_in L a) b) 4 (c # rest) =
      table_b2a_base64 (sx2 b c) # table_b2a_base64 (sx3 c)
        # b2a_loop (shift_in (shift_in (shift_in L a) b) c) 0 rest"
    using b2a_loop_Cons [of "shift_in (shift_in L a) b" 4 c rest]
    by (simp add: b2a_drain_12 enc_s2 enc_s3)
  finally show ?thesis .
qed

lemma a2b_loop_sextet:
  assumes "s < 64"
  shows "a2b_loop q l p out (table_b2a_base64 s # cs) =
     (if q = 0 then a2b_loop 1 s 0 out cs
      else if q = 1
      then a2b_loop 2 (s AND 0x0f) 0 (out @ [byte (push_bit 2 l OR drop_bit 4 s)]) cs
      else if q = 2
      then a2b_loop 3 (s AND 0x03) 0 (out @ [byte (push_bit 4 l OR drop_bit 2 s)]) cs
      else a2b_loop 0 0 0 (out @ [byte (push_bit 6 l OR s)]) cs)"
  using assms table_roundtrip [OF assms] by simp

lemma dec4:
  "a2b_loop 0 l p out
     (table_b2a_base64 (sx0 a) # table_b2a_base64 (sx1 a b) # table_b2a_base64 (sx2 b c)
        # table_b2a_base64 (sx3 c) # cs)
   = a2b_loop 0 0 0 (out @ [a, b, c]) cs"
  by (simp add: a2b_loop_sextet sx_less dec_b1 dec_b2' dec_b3' del: a2b_loop.simps)

lemma dec_tail1:
  "a2b_loop 0 l p out
     [table_b2a_base64 (sx0 a), table_b2a_base64 (sx1 a (CHR 0x00)), CHR ''='', CHR ''='']
   = Inr (out @ [a])"
proof -
  have "a2b_loop 0 l p out
     [table_b2a_base64 (sx0 a), table_b2a_base64 (sx1 a (CHR 0x00)), CHR ''='', CHR ''='']
     = a2b_loop 2 (sx1 a (CHR 0x00) AND 0x0f) 0 (out @ [a]) [CHR ''='', CHR ''='']"
    by (simp add: a2b_loop_sextet sx_less dec_b1 del: a2b_loop.simps)
  then show ?thesis by simp
qed

lemma dec_tail2:
  "a2b_loop 0 l p out
     [table_b2a_base64 (sx0 a), table_b2a_base64 (sx1 a b),
      table_b2a_base64 (sx2 b (CHR 0x00)), CHR ''='']
   = Inr (out @ [a, b])"
proof -
  have "a2b_loop 0 l p out
     [table_b2a_base64 (sx0 a), table_b2a_base64 (sx1 a b),
      table_b2a_base64 (sx2 b (CHR 0x00)), CHR ''='']
     = a2b_loop 3 (sx2 b (CHR 0x00) AND 0x03) 0 (out @ [a, b]) [CHR ''='']"
    by (simp add: a2b_loop_sextet sx_less dec_b1 dec_b2' del: a2b_loop.simps)
  then show ?thesis by simp
qed

lemma a2b_b2a:
  "a2b_loop 0 l p out (b2a_loop L 0 bs) = Inr (out @ bs)"
proof (induction "length bs" arbitrary: bs l p out L rule: less_induct)
  case less
  show ?case
  proof (cases bs)
    case Nil
    then show ?thesis by simp
  next
    case (Cons a bs1)
    show ?thesis
    proof (cases bs1)
      case Nil
      with Cons show ?thesis by (simp only: enc1 dec_tail1)
    next
      case (Cons b bs2)
      note c2 = this
      show ?thesis
      proof (cases bs2)
        case Nil
        with c2 \<open>bs = a # bs1\<close> show ?thesis by (simp only: enc2 dec_tail2)
      next
        case (Cons c rest)
        with c2 \<open>bs = a # bs1\<close> have bs: "bs = a # b # c # rest" by simp
        then have "length rest < length bs" by simp
        from less [OF this] have
          "a2b_loop 0 0 0 (out @ [a, b, c])
             (b2a_loop (shift_in (shift_in (shift_in L a) b) c) 0 rest)
           = Inr ((out @ [a, b, c]) @ rest)" .
        with bs show ?thesis by (simp only: enc3 dec4) simp
      qed
    qed
  qed
qed

lemma b2a_loop_ascii:
  "c \<in> set (b2a_loop L 0 bs) \<Longrightarrow> (of_char c :: nat) < 128"
proof (induction "length bs" arbitrary: bs L rule: less_induct)
  case less
  have T: "(of_char (table_b2a_base64 s) :: nat) < 128" if "s < 64" for s
    using that by (rule table_roundtrip(3))
  show ?case
  proof (cases bs)
    case Nil
    with less.prems show ?thesis by simp
  next
    case (Cons a bs1)
    show ?thesis
    proof (cases bs1)
      case Nil
      with Cons less.prems show ?thesis by (auto simp: enc1 T sx_less simp del: b2a_loop.simps)
    next
      case (Cons b bs2)
      note c2 = this
      show ?thesis
      proof (cases bs2)
        case Nil
        with c2 \<open>bs = a # bs1\<close> less.prems show ?thesis
          by (auto simp: enc2 T sx_less simp del: b2a_loop.simps)
      next
        case (Cons c' rest)
        with c2 \<open>bs = a # bs1\<close> have bs: "bs = a # b # c' # rest" by simp
        then have "length rest < length bs" by simp
        note ih = less.hyps [OF this]
        from less.prems bs show ?thesis
          by (auto simp: enc3 T sx_less simp del: b2a_loop.simps dest: ih)
      qed
    qed
  qed
qed

theorem b64decode_b64encode: "b64decode (b64encode bs) = Inr bs"
proof -
  have "\<not> list_ex (\<lambda>c. 128 \<le> (of_char c :: nat)) (b64encode bs)"
    by (auto simp: list_ex_iff b64encode_def dest: b2a_loop_ascii)
  then show ?thesis
    by (simp add: b64decode_def b64encode_def a2b_b2a)
qed

lemma proper_prefixes_length:
  "q \<in> set (proper_prefixes p) \<Longrightarrow> length q < length p"
  by (induction p arbitrary: q) auto

lemma kind_of_written:
  assumes "kind_of st p = KFile \<or> kind_of st p = KMissing"
    and "files st' = (files st)(p \<mapsto> bs)"
  shows "kind_of st' p = KFile"
proof -
  from assms(1) have "\<not> list_ex (\<lambda>q. files st q \<noteq> None) (proper_prefixes p)"
    by (auto simp: kind_of_def split: if_splits)
  moreover have "p \<notin> set (proper_prefixes p)"
    using proper_prefixes_length [of p p] by auto
  ultimately have "\<not> list_ex (\<lambda>q. files st' q \<noteq> None) (proper_prefixes p)"
    using assms(2) by (auto simp: list_ex_iff)
  with assms(2) show ?thesis by (simp add: kind_of_def)
qed

lemma open_write_Inr:
  "open_write st p = Inr st1 \<Longrightarrow>
     (kind_of st p = KFile \<or> kind_of st p = KMissing) \<and> st1 = st\<lparr>files := (files st)(p \<mapsto> [])\<rparr>"
  by (auto simp: open_write_def split: kind.splits if_splits)

lemma decodeImage_ok:
  assumes "b64decode s = Inr bs" and "open_write st p = Inr st1"
  shows "fst (decodeImage s p st) = Inr ()"
    and "kind_of (snd (decodeImage s p st)) p = KFile"
    and "files (snd (decodeImage s p st)) p = Some bs"
proof -
  from open_write_Inr [OF assms(2)] have k: "kind_of st p = KFile \<or> kind_of st p = KMissing"
    and st1: "st1 = st\<lparr>files := (files st)(p \<mapsto> [])\<rparr>" by auto
  let ?st' = "snd (decodeImage s p st)"
  from assms st1 have f: "files ?st' = (files st)(p \<mapsto> bs)"
    by (simp add: decodeImage_def file_write_def logger_info_def)
  from assms show "fst (decodeImage s p st) = Inr ()" by (simp add: decodeImage_def)
  from k f show "kind_of ?st' p = KFile" by (rule kind_of_written)
  from f show "files ?st' p = Some bs" by simp
qed

text \<open>
  C2: for every string \<open>s\<close> that \<^verbatim>\<open>b64decode\<close> accepts and every path that can be opened
  for writing, \<open>decodeImage\<close> succeeds, and \<open>encodeImageIntoBase64\<close> of the written file
  returns a base64 string that decodes to the same bytes as \<open>s\<close>.
\<close>

theorem decode_then_encode:
  assumes "b64decode s = Inr bs" and "open_write st p = Inr st1"
  shows "fst (decodeImage s p st) = Inr ()
     \<and> encodeImageIntoBase64 p (snd (decodeImage s p st))
         = (Inr (b64encode bs), snd (decodeImage s p st))
     \<and> b64decode (b64encode bs) = b64decode s"
  using decodeImage_ok [OF assms] assms(1)
  by (simp add: encodeImageIntoBase64_def open_read_def b64decode_b64encode)

lemma b64_sample: "b64decode ''TW Fu'' = Inr ''Man''"
  by (simp add: b64decode_def table_a2b_base64_def byte_def char_of_def bit_Suc_0_iff)

lemma b64_sample2: "b64encode ''Man'' = ''TWFu''"
  by (simp add: b64encode_def b2a_drain.simps table_b2a_base64_def b64_alphabet_def)

theorem decode_then_encode_witness:
  "fst (decodeImage ''TW Fu'' [''img.png''] no_files) = Inr ()
   \<and> fst (encodeImageIntoBase64 [''img.png''] (snd (decodeImage ''TW Fu'' [''img.png''] no_files)))
       = Inr ''TWFu''
   \<and> b64decode ''TWFu'' = b64decode ''TW Fu''"
proof -
  have w: "open_write no_files [''img.png'']
      = Inr (no_files\<lparr>files := (files no_files)([''img.png''] \<mapsto> [])\<rparr>)"
    by (simp add: open_write_def kind_of_def no_files_def)
  from decode_then_encode [OF b64_sample w] show ?thesis
    by (simp add: b64_sample2)
qed

subsection \<open>Errors of the loaders\<close>

lemma open_read_missing:
  "kind_of st p = KMissing \<Longrightarrow>
     open_read st p
       = Inl (Raise FileNotFoundError (errno_msg ''[Errno 2] No such file or directory'' p))"
  by (simp add: open_read_def)

lemma open_read_not_dir:
  "kind_of st p = KNotDir \<Longrightarrow>
     open_read st p = Inl (Raise NotADirectoryError (errno_msg ''[Errno 20] Not a directory'' p))"
  by (simp add: open_read_def)

lemma not_exists_cases:
  "\<not> path_exists st p \<Longrightarrow> kind_of st p = KMissing \<or> kind_of st p = KNotDir"
  by (cases "kind_of st p") (simp_all add: path_exists_def)

text \<open>
  C7, as the code has it: \<open>load_json\<close> fails with a \<^verbatim>\<open>ValueError\<close> when nothing is at the
  path and every parent of it is a directory or missing (\<^verbatim>\<open>open\<close> raises
  \<^verbatim>\<open>FileNotFoundError\<close>), and when the content of the file is not valid JSON, that is
  when \<^verbatim>\<open>json.load\<close> raises \<^verbatim>\<open>JSONDecodeError\<close> on it. On a path below a regular file, where
  no file exists either, \<^verbatim>\<open>open\<close> raises \<^verbatim>\<open>NotADirectoryError\<close>, which the \<^verbatim>\<open>except\<close> clause lets
  through and which is no \<^verbatim>\<open>ValueError\<close>: see the counterexample. The state is left as
  it was in the three cases.
\<close>

theorem load_json_ValueError:
  "(kind_of st p = KMissing \<longrightarrow>
      load_json loader p st
        = (Inl (Raise ValueError (''Error loading JSON file at '' @ show_path p @ '': ''
                  @ errno_msg ''[Errno 2] No such file or directory'' p)), st))
   \<and> (kind_of st p = KFile \<and> files st p = Some content \<and> loader content = Inl e
        \<and> isinstance e JSONDecodeError \<longrightarrow>
      load_json loader p st
        = (Inl (Raise ValueError (''Error loading JSON file at '' @ show_path p @ '': ''
                  @ str_of e)), st))
   \<and> (kind_of st p = KNotDir \<longrightarrow>
      load_json loader p st
        = (Inl (Raise NotADirectoryError (errno_msg ''[Errno 20] Not a directory'' p)), st))"
  by (simp add: load_json_def open_read_def load_json_except_def isinstance_def)

theorem load_json_ValueError_witness:
  "load_json sample_json_load [''scores.json''] no_files
     = (Inl (Raise ValueError (''Error loading JSON file at scores.json: ''
          @ ''[Errno 2] No such file or directory: '' @ [CHR 0x27] @ ''scores.json'' @ [CHR 0x27])),
        no_files)
   \<and> load_json sample_json_load [''scores.json''] (one_file ''scores.json'' ''not json'')
       = (Inl (Raise ValueError (''Error loading JSON file at scores.json: ''
            @ ''Expecting value: line 1 column 1 (char 0)'')),
          one_file ''scores.json'' ''not json'')
   \<and> load_json sample_json_load [''f'', ''x''] (one_file ''f'' ''x'')
       = (Inl (Raise NotADirectoryError
            (''[Errno 20] Not a directory: '' @ [CHR 0x27] @ ''f/x'' @ [CHR 0x27])),
          one_file ''f'' ''x'')"
  using load_json_ValueError [of no_files "[''scores.json'']" sample_json_load]
    load_json_ValueError [of "one_file ''scores.json'' ''not json''" "[''scores.json'']"
      sample_json_load "''not json''"
      "Raise JSONDecodeError ''Expecting value: line 1 column 1 (char 0)''"]
    load_json_ValueError [of "one_file ''f'' ''x''" "[''f'', ''x'']" sample_json_load]
  by (simp add: sample_json_load_def no_files_def one_file_def kind_of_def show_path_def
      isinstance_def errno_msg_def)

theorem load_json_below_file_counterexample:
  "kind_of (one_file ''f'' ''x'') [''f'', ''x''] = KNotDir
   \<and> files (one_file ''f'' ''x'') [''f'', ''x''] = None
   \<and> map_sum exc_of id (fst (load_json sample_json_load [''f'', ''x''] (one_file ''f'' ''x'')))
       = Inl NotADirectoryError
   \<and> \<not> is_subclass NotADirectoryError ValueError"
  by (simp add: load_json_def load_json_except_def open_read_def one_file_def kind_of_def
      isinstance_def)

text \<open>
  C6, as the code has it: on a path at which nothing exists none of the five
  operations returns a value, and the state is left as it was. When the path is merely
  absent (\<^verbatim>\<open>ENOENT\<close>), \<open>read_yaml\<close>, \<open>get_size\<close> and \<open>encodeImageIntoBase64\<close> raise
  \<^verbatim>\<open>FileNotFoundError\<close>, while \<open>load_json\<close> and \<open>load_bin\<close> raise \<^verbatim>\<open>ValueError\<close>. When a parent
  of the path is a regular file (\<^verbatim>\<open>ENOTDIR\<close>), \<open>read_yaml\<close>, \<open>get_size\<close> and \<open>load_json\<close> raise
  \<^verbatim>\<open>NotADirectoryError\<close>, while \<open>encodeImageIntoBase64\<close> and \<open>load_bin\<close> raise \<^verbatim>\<open>ValueError\<close>.
\<close>

theorem missing_path_raises:
  assumes "\<not> path_exists st p"
  shows "(kind_of st p = KMissing
      \<and> read_yaml safe_load p st
           = (Inl (Raise FileNotFoundError (''YAML file not found: '' @ show_path p)), st)
      \<and> get_size p st = (Inl (Raise FileNotFoundError (''File not found: '' @ show_path p)), st)
      \<and> encodeImageIntoBase64 p st
           = (Inl (Raise FileNotFoundError (''Image file not found: '' @ show_path p)), st)
      \<and> load_json loader p st
           = (Inl (Raise ValueError (''Error loading JSON file at '' @ show_path p @ '': ''
                @ errno_msg ''[Errno 2] No such file or directory'' p)), st)
      \<and> load_bin loads p st
           = (Inl (Raise ValueError (''Error loading binary file at '' @ show_path p @ '': ''
                @ errno_msg ''[Errno 2] No such file or directory'' p)), st))
   \<or> (kind_of st p = KNotDir
      \<and> read_yaml safe_load p st
           = (Inl (Raise NotADirectoryError (errno_msg ''[Errno 20] Not a directory'' p)), st)
      \<and> get_size p st
           = (Inl (Raise NotADirectoryError (errno_msg ''[Errno 20] Not a directory'' p)), st)
      \<and> encodeImageIntoBase64 p st
           = (Inl (Raise ValueError (''Error encoding image: ''
                @ errno_msg ''[Errno 20] Not a directory'' p)), st)
      \<and> load_json loader p st
           = (Inl (Raise NotADirectoryError (errno_msg ''[Errno 20] Not a directory'' p)), st)
      \<and> load_bin loads p st
           = (Inl (Raise ValueError (''Error loading binary file at '' @ show_path p @ '': ''
                @ errno_msg ''[Errno 20] Not a directory'' p)), st))"
proof -
  from assms have "kind_of st p = KMissing \<or> kind_of st p = KNotDir" by (rule not_exists_cases)
  then show ?thesis
  proof
    assume "kind_of st p = KMissing"
    then show ?thesis
      by (simp add: read_yaml_def read_yaml_except_def get_size_def getsize_def
          encodeImageIntoBase64_def load_json_def load_json_except_def load_bin_def
          load_bin_body_def open_read_missing isinstance_def)
  next
    assume "kind_of st p = KNotDir"
    then show ?thesis
      by (simp add: read_yaml_def read_yaml_except_def get_size_def getsize_def
          encodeImageIntoBase64_def load_json_def load_json_except_def load_bin_def
          load_bin_body_def open_read_not_dir isinstance_def)
  qed
qed

theorem missing_path_raises_witness:
  "map_sum exc_of id (fst (read_yaml sample_safe_load [''params.yaml''] no_files))
     = Inl FileNotFoundError
   \<and> map_sum exc_of id (fst (get_size [''params.yaml''] no_files)) = Inl FileNotFoundError
   \<and> map_sum exc_of id (fst (encodeImageIntoBase64 [''params.yaml''] no_files))
     = Inl FileNotFoundError
   \<and> map_sum exc_of id (fst (load_json sample_json_load [''params.yaml''] no_files))
     = Inl ValueError
   \<and> map_sum exc_of id (fst (load_bin sample_joblib_loads [''params.yaml''] no_files))
     = Inl ValueError
   \<and> map_sum exc_of id (fst (read_yaml sample_safe_load [''f'', ''x''] (one_file ''f'' ''x'')))
     = Inl NotADirectoryError
   \<and> map_sum exc_of id (fst (get_size [''f'', ''x''] (one_file ''f'' ''x'')))
     = Inl NotADirectoryError
   \<and> map_sum exc_of id (fst (encodeImageIntoBase64 [''f'', ''x''] (one_file ''f'' ''x'')))
     = Inl ValueError
   \<and> map_sum exc_of id (fst (load_json sample_json_load [''f'', ''x''] (one_file ''f'' ''x'')))
     = Inl NotADirectoryError
   \<and> map_sum exc_of id (fst (load_bin sample_joblib_loads [''f'', ''x'']
       (one_file ''f'' ''x''))) = Inl ValueError"
  using missing_path_raises [of no_files "[''params.yaml'']" sample_safe_load sample_json_load
      sample_joblib_loads]
    missing_path_raises [of "one_file ''f'' ''x''" "[''f'', ''x'']" sample_safe_load
      sample_json_load sample_joblib_loads]
  by (simp add: no_files_def one_file_def kind_of_def path_exists_def)

theorem load_json_missing_counterexample:
  "kind_of no_files [''scores.json''] = KMissing
   \<and> map_sum exc_of id (fst (load_json sample_json_load [''scores.json''] no_files))
       = Inl ValueError
   \<and> \<not> is_subclass ValueError FileNotFoundError"
  by (simp add: load_json_def load_json_except_def open_read_def no_files_def kind_of_def
      isinstance_def)

subsection \<open>What the operations log\<close>

















end
